theory Spec2Isabelle
  imports Main "HOL-Library.AList"
begin

section \<open>The schema-to-types runner (tools/quicktype\_runner.js)\<close>

text \<open>
  The runner is a thin wrapper around an external generator.  Its own code is the
  annotation pre-processor \<open>appendDeprecatedDescription\<close>, the reference resolver
  \<open>FetchingJSONSchemaStore.fetch\<close>, and the orchestration \<open>generate\<close>, \<open>main\<close> and
  the program entry.  Everything the code calls but does not define (the ECMAScript
  built-ins, Node's \<open>url\<close>, \<open>path\<close>, \<open>fs\<close> and \<open>fetch\<close>, and the generator library) is a
  field of the record \<open>platform\<close> below, so every function of the file is a function of
  the platform it runs on.
\<close>

subsection \<open>Values\<close>

text \<open>
  The values \<open>JSON.parse\<close> produces.  Numbers are IEEE doubles in the runtime; the code
  only tests them for truthiness and converts them to text, so the number type is a
  parameter \<open>'n\<close> and both operations are platform fields.  An object is the list of its
  own properties in enumeration order (the order of \<open>for ... in\<close> and of
  \<open>JSON.stringify\<close>).
\<close>

datatype 'n json =
    JNull
  | JBool bool
  | JNumber 'n
  | JString string
  | JArray "'n json list"
  | JObject "(string \<times> 'n json) list"

text \<open>What the code can throw.\<close>

datatype error =
    SyntaxError
  | TypeError
  | SystemError string
  | GeneratorError string

text \<open>The result of legacy \<open>url.parse\<close>: each component is a string or \<open>null\<close>.\<close>

record url =
  protocol :: "string option"
  hostname :: "string option"
  path :: "string option"

text \<open>
  A \<open>Response\<close> of the global \<open>fetch\<close>.  Its body is what the promise returned by
  \<open>response.text()\<close> settles to: the text, or a failure.
\<close>

record response =
  body :: "error + string"

record 'n platform =
  Number_isZeroOrNaN :: "'n \<Rightarrow> bool"
  Number_toString :: "'n \<Rightarrow> string"
  String_trim :: "string \<Rightarrow> string"
  JSON_parse :: "string \<Rightarrow> 'n json option"
  JSON_stringify :: "'n json \<Rightarrow> string"
  URL_parse :: "string \<Rightarrow> url"
  path_join :: "string list \<Rightarrow> string"
  path_dirname :: "string \<Rightarrow> string"
  path_isAbsolute :: "string \<Rightarrow> bool"
  path_resolve :: "string list \<Rightarrow> string"
  module_dirname :: "string"
  fs_existsSync :: "string \<Rightarrow> bool"
  fs_readFileSync :: "string \<Rightarrow> error + string"
  fs_writeFileSync :: "string \<Rightarrow> string \<Rightarrow> error option"
  global_fetch :: "string \<Rightarrow> response option"
  BUILD_WORKSPACE_DIRECTORY :: "string option"
  parseJSON :: "string \<Rightarrow> string \<Rightarrow> string \<Rightarrow> error + 'n json"
  quicktype :: "(string \<Rightarrow> error + 'n json option) \<Rightarrow> string \<Rightarrow> error + string list"

subsection \<open>ECMAScript conversions the pre-processor relies on\<close>

text \<open>
  \<open>ToBoolean\<close> of a property value read from a parsed object; \<open>None\<close> is \<open>undefined\<close>
  (the property is absent).
\<close>

fun ToBoolean :: "'n platform \<Rightarrow> 'n json option \<Rightarrow> bool" where
  "ToBoolean p None = False"
| "ToBoolean p (Some JNull) = False"
| "ToBoolean p (Some (JBool b)) = b"
| "ToBoolean p (Some (JNumber n)) = (\<not> Number_isZeroOrNaN p n)"
| "ToBoolean p (Some (JString s)) = (s \<noteq> [])"
| "ToBoolean p (Some (JArray xs)) = True"
| "ToBoolean p (Some (JObject kvs)) = True"

text \<open>
  The string a value contributes to a \<open>+\<close> with a string.  An array joins its elements
  with commas, \<open>null\<close> elements contributing nothing; a plain object gives
  \<open>[object Object]\<close> through \<open>Object.prototype.toString\<close>, unless an own property
  \<open>toString\<close> (never callable in parsed JSON) shadows it, and then the conversion
  throws a \<open>TypeError\<close>.
\<close>

fun ToString :: "'n platform \<Rightarrow> 'n json \<Rightarrow> error + string"
  and join_elements :: "'n platform \<Rightarrow> 'n json list \<Rightarrow> error + string"
  and element_string :: "'n platform \<Rightarrow> 'n json \<Rightarrow> error + string"
where
  "ToString p JNull = Inr ''null''"
| "ToString p (JBool b) = Inr (if b then ''true'' else ''false'')"
| "ToString p (JNumber n) = Inr (Number_toString p n)"
| "ToString p (JString s) = Inr s"
| "ToString p (JArray xs) = join_elements p xs"
| "ToString p (JObject kvs) =
     (if map_of kvs ''toString'' = None then Inr ''[object Object]'' else Inl TypeError)"
| "join_elements p [] = Inr []"
| "join_elements p [x] = element_string p x"
| "join_elements p (x # y # ys) =
     (case element_string p x of
        Inl e \<Rightarrow> Inl e
      | Inr s \<Rightarrow> (case join_elements p (y # ys) of
                   Inl e \<Rightarrow> Inl e
                 | Inr r \<Rightarrow> Inr (s @ '','' @ r)))"
| "element_string p JNull = Inr []"
| "element_string p (JBool b) = ToString p (JBool b)"
| "element_string p (JNumber n) = ToString p (JNumber n)"
| "element_string p (JString s) = ToString p (JString s)"
| "element_string p (JArray xs) = ToString p (JArray xs)"
| "element_string p (JObject kvs) = ToString p (JObject kvs)"

subsection \<open>The annotation pre-processor\<close>

text \<open>The marker appended to a deprecated property's description.\<close>

definition deprecated_marker :: string where
  "deprecated_marker = ''\<newline>@deprecated''"

text \<open>
  The body of the loop, for the value \<open>props[key]\<close>.  Destructuring \<open>null\<close> throws;
  a value that is not an object has neither property, so the loop continues.
\<close>

fun deprecate_entry :: "'n platform \<Rightarrow> 'n json \<Rightarrow> error + 'n json" where
  "deprecate_entry p JNull = Inl TypeError"
| "deprecate_entry p (JObject own) =
     (let description = (case map_of own ''description'' of
                           None \<Rightarrow> JString []
                         | Some d \<Rightarrow> d);
          deprecated = map_of own ''x-deprecated''
      in if \<not> ToBoolean p deprecated then Inr (JObject own)
         else (case ToString p description of
                 Inl e \<Rightarrow> Inl e
               | Inr d \<Rightarrow>
                   Inr (JObject (AList.update ''description''
                     (JString (d @ deprecated_marker @
                        (case deprecated of
                           Some (JString s) \<Rightarrow> '' '' @ s
                         | _ \<Rightarrow> [])))
                     own))))"
| "deprecate_entry p v = Inr v"

text \<open>The loop \<open>for (const key in props)\<close> over the enumerated properties, in order.\<close>

fun deprecate_entries ::
  "'n platform \<Rightarrow> ('k \<times> 'n json) list \<Rightarrow> error + ('k \<times> 'n json) list" where
  "deprecate_entries p [] = Inr []"
| "deprecate_entries p ((key, v) # rest) =
     (case deprecate_entry p v of
        Inl e \<Rightarrow> Inl e
      | Inr v' \<Rightarrow> (case deprecate_entries p rest of
                    Inl e \<Rightarrow> Inl e
                  | Inr rest' \<Rightarrow> Inr ((key, v') # rest')))"

text \<open>
  The loop for each kind of \<open>props\<close>: an object enumerates its properties, an array its
  indices; a string enumerates its characters, which are strings and stay as they are;
  \<open>undefined\<close>, \<open>null\<close>, booleans and numbers enumerate nothing.
\<close>

fun deprecate_props :: "'n platform \<Rightarrow> 'n json \<Rightarrow> error + 'n json" where
  "deprecate_props p (JObject entries) =
     (case deprecate_entries p entries of
        Inl e \<Rightarrow> Inl e
      | Inr entries' \<Rightarrow> Inr (JObject entries'))"
| "deprecate_props p (JArray xs) =
     (case deprecate_entries p (enumerate 0 xs) of
        Inl e \<Rightarrow> Inl e
      | Inr ixs \<Rightarrow> Inr (JArray (map snd ixs)))"
| "deprecate_props p v = Inr v"

text \<open>
  Lines 145 to 155 on the parsed document: \<open>content.properties\<close> throws on \<open>null\<close>, is
  \<open>undefined\<close> on every other value that is not an object with that property, and the
  loop changes the entries of \<open>props\<close> in place.
\<close>

fun deprecate_content :: "'n platform \<Rightarrow> 'n json \<Rightarrow> error + 'n json" where
  "deprecate_content p JNull = Inl TypeError"
| "deprecate_content p (JObject members) =
     (case map_of members ''properties'' of
        None \<Rightarrow> Inr (JObject members)
      | Some props \<Rightarrow>
          (case deprecate_props p props of
             Inl e \<Rightarrow> Inl e
           | Inr props' \<Rightarrow> Inr (JObject (AList.update ''properties'' props' members))))"
| "deprecate_content p v = Inr v"

definition appendDeprecatedDescription :: "'n platform \<Rightarrow> string \<Rightarrow> error + string" where
  "appendDeprecatedDescription p schema =
     (case JSON_parse p schema of
        None \<Rightarrow> Inl SyntaxError
      | Some content \<Rightarrow>
          (case deprecate_content p content of
             Inl e \<Rightarrow> Inl e
           | Inr content' \<Rightarrow> Inr (JSON_stringify p content')))"

subsection \<open>The reference resolver\<close>

text \<open>
  The value of the variable \<open>content\<close> of \<open>fetch\<close>: \<open>null\<close>, the text of a file, or the
  promise \<open>response.text()\<close> returns.  The promise is assigned as it is, without
  \<open>await\<close>; it carries what it would settle to, which the code never reads.
\<close>

datatype content =
    Null
  | Text string
  | TextPromise "error + string"

text \<open>
  Lines 58 to 68.  \<open>path.join\<close> throws a \<open>TypeError\<close> on an argument that is not a
  string, and \<open>readFileSync\<close> throws outside any \<open>try\<close>.  The \<open>try\<close> block of the
  network branch throws only when the awaited \<open>fetch(address)\<close> rejects.
\<close>

definition fetch_by_scheme :: "'n platform \<Rightarrow> string \<Rightarrow> error + content" where
  "fetch_by_scheme p address =
     (let url = URL_parse p address in
      if protocol url = Some ''ng-cli:'' then
        (case (hostname url, path url) of
           (Some host, Some urlpath) \<Rightarrow>
             (let filePath =
                    path_join p [module_dirname p, ''../packages/angular/cli'', host, urlpath]
              in case fs_readFileSync p filePath of
                   Inl e \<Rightarrow> Inl e
                 | Inr s \<Rightarrow> Inr (Text (String_trim p s)))
         | _ \<Rightarrow> Inl TypeError)
      else if hostname url \<noteq> None \<and> hostname url \<noteq> Some [] then
        (case global_fetch p address of
           None \<Rightarrow> Inr Null
         | Some r \<Rightarrow> Inr (TextPromise (body r)))
      else Inr Null)"

text \<open>Lines 70 to 77: the address relative to the directory of the input file.\<close>

definition fetch_relative :: "'n platform \<Rightarrow> string \<Rightarrow> string \<Rightarrow> content \<Rightarrow> error + content" where
  "fetch_relative p inPath address c =
     (if c = Null \<and> \<not> path_isAbsolute p address then
        (let resolvedPath = path_join p [path_dirname p inPath, address]
         in if fs_existsSync p resolvedPath then
              (case fs_readFileSync p resolvedPath of
                 Inl e \<Rightarrow> Inl e
               | Inr s \<Rightarrow> Inr (Text s))
            else Inr c)
      else Inr c)"

text \<open>Lines 79 to 81: the address as a path of its own.\<close>

definition fetch_literal :: "'n platform \<Rightarrow> string \<Rightarrow> content \<Rightarrow> error + content" where
  "fetch_literal p address c =
     (if c = Null \<and> fs_existsSync p address then
        (case fs_readFileSync p address of
           Inl e \<Rightarrow> Inl e
         | Inr s \<Rightarrow> Inr (Text (String_trim p s)))
      else Inr c)"

text \<open>
  \<open>JSON.parse\<close> converts its argument to a string first: a string is itself, and a
  promise is an object whose conversion gives \<open>[object Promise]\<close>.
\<close>

fun argument_text :: "content \<Rightarrow> string" where
  "argument_text Null = ''null''"
| "argument_text (Text s) = s"
| "argument_text (TextPromise r) = ''[object Promise]''"

text \<open>\<open>fetch\<close> returns the parsed schema, or \<open>undefined\<close> (here \<open>None\<close>), or throws.\<close>

definition fetch :: "'n platform \<Rightarrow> string \<Rightarrow> string \<Rightarrow> error + 'n json option" where
  "fetch p inPath address =
     (case fetch_by_scheme p address of
        Inl e \<Rightarrow> Inl e
      | Inr c1 \<Rightarrow>
     (case fetch_relative p inPath address c1 of
        Inl e \<Rightarrow> Inl e
      | Inr c2 \<Rightarrow>
     (case fetch_literal p address c2 of
        Inl e \<Rightarrow> Inl e
      | Inr c3 \<Rightarrow>
          if c3 = Null then Inr None
          else (case appendDeprecatedDescription p (argument_text c3) of
                  Inl e \<Rightarrow> Inl e
                | Inr schema \<Rightarrow>
                    (case parseJSON p schema ''JSON Schema'' address of
                       Inl e \<Rightarrow> Inl e
                     | Inr v \<Rightarrow> Inr (Some v))))))"

subsection \<open>Generation and the program\<close>

definition header :: string where
  "header =
     ''\<newline>// THIS FILE IS AUTOMATICALLY GENERATED. TO UPDATE THIS FILE YOU NEED TO CHANGE THE'' @
     ''\<newline>// CORRESPONDING JSON SCHEMA FILE, THEN RUN devkit-admin build (or bazel build ...).'' @
     ''\<newline>\<newline>''"

definition footer :: string where
  "footer = []"

text \<open>\<open>lines.join(sep)\<close> on an array of strings.\<close>

fun join :: "string \<Rightarrow> string list \<Rightarrow> string" where
  "join sep [] = []"
| "join sep [l] = l"
| "join sep (l # m # ls) = l @ sep @ join sep (m # ls)"

text \<open>
  \<open>generate\<close>.  The platform's \<open>quicktype\<close> stands for \<open>inputData.addSource\<close> followed by
  the \<open>quicktype\<close> call with the file's fixed options: given the store's \<open>fetch\<close> and the
  pre-processed schema it returns the emitted lines, or throws.
\<close>

definition generate :: "'n platform \<Rightarrow> string \<Rightarrow> error + string" where
  "generate p inPath =
     (case fs_readFileSync p inPath of
        Inl e \<Rightarrow> Inl e
      | Inr content \<Rightarrow>
     (case appendDeprecatedDescription p content of
        Inl e \<Rightarrow> Inl e
      | Inr schema \<Rightarrow>
     (case quicktype p (fetch p inPath) schema of
        Inl e \<Rightarrow> Inl e
      | Inr lines \<Rightarrow> Inr (header @ join ''\<newline>'' lines @ footer))))"

text \<open>What the process does to the outside, in order, and how an \<open>async\<close> call ends.\<close>

datatype effect =
    ConsoleLog string
  | ConsoleError string
  | ConsoleErrorValue error
  | WriteFile string string

datatype completion =
    Fulfilled
  | Rejected error
  | Exit nat

definition main :: "'n platform \<Rightarrow> string \<Rightarrow> string \<Rightarrow> effect list \<times> completion" where
  "main p inPath outPath =
     (case generate p inPath of
        Inl e \<Rightarrow> ([], Rejected e)
      | Inr content \<Rightarrow>
          if outPath = ''-'' then ([ConsoleLog content], Exit 0)
          else
            (let buildWorkspaceDirectory =
                   (case BUILD_WORKSPACE_DIRECTORY p of
                      None \<Rightarrow> ''.''
                    | Some d \<Rightarrow> if d = [] then ''.'' else d);
                 resolved = path_resolve p [buildWorkspaceDirectory, outPath]
             in case fs_writeFileSync p resolved content of
                  Some e \<Rightarrow> ([WriteFile resolved content], Rejected e)
                | None \<Rightarrow> ([WriteFile resolved content], Fulfilled)))"

text \<open>
  The entry under \<open>require.main === module\<close>, on \<open>argv = process.argv.slice(2)\<close>: the
  effects and the exit status.
\<close>

definition program :: "'n platform \<Rightarrow> string list \<Rightarrow> effect list \<times> nat" where
  "program p argv =
     (if length argv < 2 \<or> length argv > 3 then
        ([ConsoleError ''Must include 2 or 3 arguments.''], 1)
      else
        (case main p (argv ! 0) (argv ! 1) of
           (effects, Exit status) \<Rightarrow> (effects, status)
         | (effects, Fulfilled) \<Rightarrow> (effects, 0)
         | (effects, Rejected err) \<Rightarrow>
             (effects @ [ConsoleError ''An error happened:'', ConsoleErrorValue err], 127)))"

section \<open>A platform for the examples\<close>

text \<open>
  A small concrete platform on which the functions above evaluate.  Numbers are the
  naturals and \<open>Infinity\<close>, the value \<open>JSON.parse\<close> gives a literal too large for a
  double, which \<open>JSON.stringify\<close> writes as \<open>null\<close>.
\<close>

datatype number = Num nat | Infinity

fun decimal :: "nat \<Rightarrow> string" where
  "decimal n =
     (if n < 10 then [char_of (48 + n)]
      else decimal (n div 10) @ [char_of (48 + n mod 10)])"

declare decimal.simps [simp del]

fun sample_isZeroOrNaN :: "number \<Rightarrow> bool" where
  "sample_isZeroOrNaN (Num n) = (n = 0)"
| "sample_isZeroOrNaN Infinity = False"

fun sample_toString :: "number \<Rightarrow> string" where
  "sample_toString (Num n) = decimal n"
| "sample_toString Infinity = ''Infinity''"

definition is_space :: "char \<Rightarrow> bool" where
  "is_space c = (c \<in> set [CHR 0x09, CHR 0x0A, CHR 0x0B, CHR 0x0C, CHR 0x0D, CHR 0x20])"

definition sample_trim :: "string \<Rightarrow> string" where
  "sample_trim s = rev (dropWhile is_space (rev (dropWhile is_space s)))"

text \<open>\<open>JSON.stringify\<close> without indentation.\<close>

fun hex_digit :: "nat \<Rightarrow> char" where
  "hex_digit n = (if n < 10 then char_of (48 + n) else char_of (87 + n))"

definition escape :: "char \<Rightarrow> string" where
  "escape c =
     (if c = CHR 0x22 then [CHR 0x5C, CHR 0x22]
      else if c = CHR 0x5C then [CHR 0x5C, CHR 0x5C]
      else if c = CHR 0x08 then [CHR 0x5C, CHR ''b'']
      else if c = CHR 0x0C then [CHR 0x5C, CHR ''f'']
      else if c = CHR 0x0A then [CHR 0x5C, CHR ''n'']
      else if c = CHR 0x0D then [CHR 0x5C, CHR ''r'']
      else if c = CHR 0x09 then [CHR 0x5C, CHR ''t'']
      else if of_char c < (32 :: nat) then
        [CHR 0x5C, CHR ''u'', CHR ''0'', CHR ''0'',
         hex_digit (of_char c div 16), hex_digit (of_char c mod 16)]
      else [c])"

definition quote :: "string \<Rightarrow> string" where
  "quote s = [CHR 0x22] @ concat (map escape s) @ [CHR 0x22]"

fun sample_stringify :: "number json \<Rightarrow> string" where
  "sample_stringify JNull = ''null''"
| "sample_stringify (JBool b) = (if b then ''true'' else ''false'')"
| "sample_stringify (JNumber (Num n)) = decimal n"
| "sample_stringify (JNumber Infinity) = ''null''"
| "sample_stringify (JString s) = quote s"
| "sample_stringify (JArray xs) = ''['' @ join '','' (map sample_stringify xs) @ '']''"
| "sample_stringify (JObject kvs) =
     ''{'' @ join '','' (map (\<lambda>kv. quote (fst kv) @ '':'' @ sample_stringify (snd kv)) kvs) @ ''}''"

text \<open>The documents of the examples.\<close>

definition name_entry :: "(string \<times> number json) list" where
  "name_entry = [(''type'', JString ''string'')]"

definition old_entry :: "(string \<times> number json) list" where
  "old_entry = [(''type'', JString ''string''), (''x-deprecated'', JBool True)]"

definition older_entry :: "(string \<times> number json) list" where
  "older_entry =
     [(''description'', JString ''The old way.''),
      (''x-deprecated'', JString ''use X instead'')]"

definition off_entry :: "(string \<times> number json) list" where
  "off_entry = [(''description'', JString ''Still fine.''), (''x-deprecated'', JBool False)]"

definition zero_entry :: "(string \<times> number json) list" where
  "zero_entry = [(''x-deprecated'', JNumber (Num 0))]"

definition schema_props :: "(string \<times> number json) list" where
  "schema_props =
     [(''name'', JObject name_entry), (''old'', JObject old_entry),
      (''older'', JObject older_entry), (''off'', JObject off_entry),
      (''zero'', JObject zero_entry)]"

definition schema_members :: "(string \<times> number json) list" where
  "schema_members = [(''type'', JString ''object''), (''properties'', JObject schema_props)]"

definition schema_doc :: "number json" where
  "schema_doc = JObject schema_members"

definition schema_doc_deprecated :: "number json" where
  "schema_doc_deprecated = JObject
     [(''type'', JString ''object''),
      (''properties'', JObject
        [(''name'', JObject name_entry),
         (''old'', JObject
            [(''type'', JString ''string''), (''x-deprecated'', JBool True),
             (''description'', JString ''\<newline>@deprecated'')]),
         (''older'', JObject
            [(''description'', JString ''The old way.\<newline>@deprecated use X instead''),
             (''x-deprecated'', JString ''use X instead'')]),
         (''off'', JObject off_entry),
         (''zero'', JObject zero_entry)])]"

definition plain_members :: "(string \<times> number json) list" where
  "plain_members = [(''type'', JString ''string'')]"

definition plain_doc :: "number json" where
  "plain_doc = JObject plain_members"

definition custom_ref_doc :: "number json" where
  "custom_ref_doc = JObject [(''$ref'', JString ''ng-cli://commands/missing.json'')]"

definition huge_doc :: "number json" where
  "huge_doc = JObject [(''maximum'', JNumber Infinity)]"

definition huge_text :: string where
  "huge_text = ''{'' @ quote ''maximum'' @ '':1e999}''"

definition huge_doc_null :: "number json" where
  "huge_doc_null = JObject [(''maximum'', JNull)]"

text \<open>
  \<open>JSON.parse\<close>, tabulated on the texts of the examples; every other text of the
  examples is not JSON.
\<close>

definition sample_parse :: "string \<Rightarrow> number json option" where
  "sample_parse =
     map_of
       ((huge_text, huge_doc) #
        map (\<lambda>d. (sample_stringify d, d))
          [schema_doc, schema_doc_deprecated, plain_doc, custom_ref_doc, huge_doc_null])"

text \<open>The file system, the addresses and the network of the examples.\<close>

definition sample_files :: "(string \<times> string) list" where
  "sample_files =
     [(''/work/schema.json'', sample_stringify schema_doc),
      (''/work/custom.json'', sample_stringify custom_ref_doc)]"

definition sample_readFileSync :: "string \<Rightarrow> error + string" where
  "sample_readFileSync f =
     (case map_of sample_files f of
        None \<Rightarrow> Inl (SystemError ''ENOENT'')
      | Some s \<Rightarrow> Inr s)"

definition sample_url_parse :: "string \<Rightarrow> url" where
  "sample_url_parse address =
     (if address = ''ng-cli://commands/missing.json'' then
        \<lparr>protocol = Some ''ng-cli:'', hostname = Some ''commands'',
         path = Some ''/missing.json''\<rparr>
      else if address = ''http://example.com/schema.json'' then
        \<lparr>protocol = Some ''http:'', hostname = Some ''example.com'',
         path = Some ''/schema.json''\<rparr>
      else if address = ''http://example.com/broken.json'' then
        \<lparr>protocol = Some ''http:'', hostname = Some ''example.com'',
         path = Some ''/broken.json''\<rparr>
      else if address = ''http://unreachable.example/schema.json'' then
        \<lparr>protocol = Some ''http:'', hostname = Some ''unreachable.example'',
         path = Some ''/schema.json''\<rparr>
      else \<lparr>protocol = None, hostname = None, path = Some address\<rparr>)"

definition sample_fetch :: "string \<Rightarrow> response option" where
  "sample_fetch address =
     (if address = ''http://example.com/schema.json'' then
        Some \<lparr>body = Inr (sample_stringify plain_doc)\<rparr>
      else if address = ''http://example.com/broken.json'' then
        Some \<lparr>body = Inl (SystemError ''ECONNRESET'')\<rparr>
      else None)"

definition sample_dirname :: "string \<Rightarrow> string" where
  "sample_dirname f = rev (drop 1 (dropWhile (\<lambda>c. c \<noteq> CHR ''/'') (rev f)))"

definition sample_isAbsolute :: "string \<Rightarrow> bool" where
  "sample_isAbsolute f = (case f of [] \<Rightarrow> False | c # cs \<Rightarrow> c = CHR ''/'')"

definition sample_resolve :: "string list \<Rightarrow> string" where
  "sample_resolve parts =
     foldl (\<lambda>dir part. if sample_isAbsolute part then part else dir @ ''/'' @ part)
       ''/cwd'' parts"

text \<open>
  \<open>parseJSON\<close> of the generator library parses the text; the generator of the examples
  resolves a top-level reference through the store and emits the same three lines.
\<close>

definition sample_parseJSON :: "string \<Rightarrow> string \<Rightarrow> string \<Rightarrow> error + number json" where
  "sample_parseJSON text description address =
     (case sample_parse text of
        None \<Rightarrow> Inl (GeneratorError ''MiscJSONParseError'')
      | Some v \<Rightarrow> Inr v)"

definition sample_lines :: "string list" where
  "sample_lines = [''export interface Schema {'', ''    name?: string;'', ''}'']"

definition sample_quicktype ::
  "(string \<Rightarrow> error + number json option) \<Rightarrow> string \<Rightarrow> error + string list" where
  "sample_quicktype store schema =
     (case sample_parse schema of
        None \<Rightarrow> Inl (GeneratorError ''MiscJSONParseError'')
      | Some (JObject members) \<Rightarrow>
          (case map_of members ''$ref'' of
             Some (JString address) \<Rightarrow>
               (case store address of
                  Inl e \<Rightarrow> Inl e
                | Inr None \<Rightarrow> Inl (GeneratorError ''SchemaFetchError'')
                | Inr (Some v) \<Rightarrow> Inr sample_lines)
           | _ \<Rightarrow> Inr sample_lines)
      | Some _ \<Rightarrow> Inr sample_lines)"

definition sample_platform :: "number platform" where
  "sample_platform =
     \<lparr>Number_isZeroOrNaN = sample_isZeroOrNaN,
      Number_toString = sample_toString,
      String_trim = sample_trim,
      JSON_parse = sample_parse,
      JSON_stringify = sample_stringify,
      URL_parse = sample_url_parse,
      path_join = join ''/'',
      path_dirname = sample_dirname,
      path_isAbsolute = sample_isAbsolute,
      path_resolve = sample_resolve,
      module_dirname = ''/repo/tools'',
      fs_existsSync = (\<lambda>f. map_of sample_files f \<noteq> None),
      fs_readFileSync = sample_readFileSync,
      fs_writeFileSync = (\<lambda>f s. None),
      global_fetch = sample_fetch,
      BUILD_WORKSPACE_DIRECTORY = None,
      parseJSON = sample_parseJSON,
      quicktype = sample_quicktype\<rparr>"

section \<open>The example schema on the example platform\<close>

lemma sample_schema_parsed:
  "JSON_parse sample_platform (sample_stringify schema_doc) = Some (JObject schema_members)"
  by code_simp

lemma sample_schema_props:
  "map_of schema_members ''properties'' = Some (JObject schema_props)"
  by code_simp

lemma sample_schema_returned:
  "appendDeprecatedDescription sample_platform (sample_stringify schema_doc) =
     Inr (sample_stringify schema_doc_deprecated)"
  by code_simp

section \<open>The annotation pre-processor: properties\<close>

text \<open>The loop keeps every key and gives each entry the result of the loop body.\<close>

lemma deprecate_entries_lookup:
  "deprecate_entries p kvs = Inr kvs' \<Longrightarrow> map_of kvs key = Some v \<Longrightarrow>
   \<exists>v'. deprecate_entry p v = Inr v' \<and> map_of kvs' key = Some v'"
  by (induction kvs arbitrary: kvs') (auto split: sum.splits if_splits)

lemma appendDeprecatedDescription_entry:
  assumes parsed: "JSON_parse p schema = Some (JObject members)"
    and props: "map_of members ''properties'' = Some (JObject props)"
    and entry: "map_of props key = Some v"
    and returned: "appendDeprecatedDescription p schema = Inr out"
  shows "\<exists>props' v'.
      deprecate_content p (JObject members) =
        Inr (JObject (AList.update ''properties'' (JObject props') members)) \<and>
      out = JSON_stringify p (JObject (AList.update ''properties'' (JObject props') members)) \<and>
      map_of props' key = Some v' \<and>
      deprecate_entry p v = Inr v'"
proof -
  from returned parsed obtain content'
    where content': "deprecate_content p (JObject members) = Inr content'"
      and out: "out = JSON_stringify p content'"
    by (auto simp: appendDeprecatedDescription_def split: sum.splits)
  from content' props obtain props'
    where loop: "deprecate_entries p props = Inr props'"
      and upd: "content' = JObject (AList.update ''properties'' (JObject props') members)"
    by (auto split: sum.splits)
  from deprecate_entries_lookup [OF loop entry] obtain v'
    where "deprecate_entry p v = Inr v'" "map_of props' key = Some v'"
    by blast
  with content' out upd show ?thesis by blast
qed

lemma deprecate_entry_object:
  "deprecate_entry p (JObject own) = Inr v' \<Longrightarrow> \<exists>own'. v' = JObject own'"
  by (auto simp: Let_def split: if_splits sum.splits)

lemma deprecate_entry_flag:
  assumes "map_of own ''x-deprecated'' = Some (JBool True)"
    and "map_of own ''description'' = None"
  shows "deprecate_entry p (JObject own) =
     Inr (JObject (AList.update ''description'' (JString ''\<newline>@deprecated'') own))"
  using assms by (simp add: deprecated_marker_def)

lemma deprecate_entry_text:
  assumes "x \<noteq> []"
    and "map_of own ''x-deprecated'' = Some (JString x)"
    and "map_of own ''description'' = Some (JString d)"
  shows "deprecate_entry p (JObject own) =
     Inr (JObject (AList.update ''description''
       (JString (d @ ''\<newline>@deprecated '' @ x)) own))"
  using assms by (simp add: deprecated_marker_def)

lemma deprecate_entry_text_only:
  assumes "x \<noteq> []"
    and "map_of own ''x-deprecated'' = Some (JString x)"
    and "map_of own ''description'' = None"
  shows "deprecate_entry p (JObject own) =
     Inr (JObject (AList.update ''description''
       (JString (''\<newline>@deprecated '' @ x)) own))"
  using assms by (simp add: deprecated_marker_def)

text \<open>
  Claim C1.  For an entry of the top-level \<open>properties\<close> of the parsed schema, whenever
  the pre-processor returns: an entry with \<open>x-deprecated: true\<close> and no description gets
  exactly the description \<open>"\n@deprecated"\<close>; an entry whose \<open>x-deprecated\<close> is a
  non-empty string \<open>x\<close> gets its prior description (the empty string when it had none)
  followed by \<open>"\n@deprecated "\<close> and \<open>x\<close>.  The text returned is the serialisation of
  the document so changed.
\<close>

theorem deprecated_description_appended:
  assumes parsed: "JSON_parse p schema = Some (JObject members)"
    and props: "map_of members ''properties'' = Some (JObject props)"
    and entry: "map_of props key = Some (JObject own)"
    and returned: "appendDeprecatedDescription p schema = Inr out"
  shows "\<exists>props' own'.
      deprecate_content p (JObject members) =
        Inr (JObject (AList.update ''properties'' (JObject props') members)) \<and>
      out = JSON_stringify p (JObject (AList.update ''properties'' (JObject props') members)) \<and>
      map_of props' key = Some (JObject own') \<and>
      (map_of own ''x-deprecated'' = Some (JBool True) \<and> map_of own ''description'' = None \<longrightarrow>
         map_of own' ''description'' = Some (JString ''\<newline>@deprecated'')) \<and>
      (\<forall>x. x \<noteq> [] \<and> map_of own ''x-deprecated'' = Some (JString x) \<longrightarrow>
         (map_of own ''description'' = None \<longrightarrow>
            map_of own' ''description'' = Some (JString (''\<newline>@deprecated '' @ x))) \<and>
         (\<forall>d. map_of own ''description'' = Some (JString d) \<longrightarrow>
            map_of own' ''description'' = Some (JString (d @ ''\<newline>@deprecated '' @ x))))"
proof -
  from appendDeprecatedDescription_entry [OF parsed props entry returned]
  obtain props' v'
    where content': "deprecate_content p (JObject members) =
        Inr (JObject (AList.update ''properties'' (JObject props') members))"
      and out: "out = JSON_stringify p (JObject (AList.update ''properties'' (JObject props') members))"
      and entry': "map_of props' key = Some v'"
      and body: "deprecate_entry p (JObject own) = Inr v'"
    by blast
  from deprecate_entry_object [OF body] obtain own' where v': "v' = JObject own'" ..
  have flag: "map_of own' ''description'' = Some (JString ''\<newline>@deprecated'')"
    if "map_of own ''x-deprecated'' = Some (JBool True) \<and> map_of own ''description'' = None"
  proof -
    from that have "deprecate_entry p (JObject own) =
        Inr (JObject (AList.update ''description'' (JString ''\<newline>@deprecated'') own))"
      by (intro deprecate_entry_flag) simp_all
    with body v' have "own' = AList.update ''description'' (JString ''\<newline>@deprecated'') own"
      by simp
    then show ?thesis by (simp add: update_conv')
  qed
  have text_only:
    "map_of own' ''description'' = Some (JString (''\<newline>@deprecated '' @ x))"
    if "x \<noteq> [] \<and> map_of own ''x-deprecated'' = Some (JString x)"
      and "map_of own ''description'' = None" for x
  proof -
    from that have "deprecate_entry p (JObject own) =
        Inr (JObject (AList.update ''description''
          (JString (''\<newline>@deprecated '' @ x)) own))"
      by (intro deprecate_entry_text_only) simp_all
    with body v' have "own' = AList.update ''description''
        (JString (''\<newline>@deprecated '' @ x)) own"
      by simp
    then show ?thesis by (simp add: update_conv')
  qed
  have text_after:
    "map_of own' ''description'' = Some (JString (d @ ''\<newline>@deprecated '' @ x))"
    if "x \<noteq> [] \<and> map_of own ''x-deprecated'' = Some (JString x)"
      and "map_of own ''description'' = Some (JString d)" for x d
  proof -
    from that have "deprecate_entry p (JObject own) =
        Inr (JObject (AList.update ''description''
          (JString (d @ ''\<newline>@deprecated '' @ x)) own))"
      by (intro deprecate_entry_text) simp_all
    with body v' have "own' = AList.update ''description''
        (JString (d @ ''\<newline>@deprecated '' @ x)) own"
      by simp
    then show ?thesis by (simp add: update_conv')
  qed
  show ?thesis
  proof (intro exI conjI impI allI)
    show "deprecate_content p (JObject members) =
        Inr (JObject (AList.update ''properties'' (JObject props') members))"
      by (fact content')
    show "out = JSON_stringify p (JObject (AList.update ''properties'' (JObject props') members))"
      by (fact out)
    show "map_of props' key = Some (JObject own')"
      using entry' v' by simp
  qed (use flag text_only text_after in blast)+
qed

text \<open>
  The theorem at the entries \<open>old\<close> and \<open>older\<close> of the example schema, the second with
  \<open>x-deprecated: "use X instead"\<close>.
\<close>

theorem deprecated_description_appended_witness:
  "JSON_parse sample_platform (sample_stringify schema_doc) = Some (JObject schema_members) \<and>
   map_of schema_members ''properties'' = Some (JObject schema_props) \<and>
   map_of schema_props ''old'' = Some (JObject old_entry) \<and>
   map_of schema_props ''older'' = Some (JObject older_entry) \<and>
   appendDeprecatedDescription sample_platform (sample_stringify schema_doc) =
     Inr (sample_stringify schema_doc_deprecated) \<and>
   (\<exists>props' old' older'.
      deprecate_content sample_platform (JObject schema_members) =
        Inr (JObject (AList.update ''properties'' (JObject props') schema_members)) \<and>
      map_of props' ''old'' = Some (JObject old') \<and>
      map_of old' ''description'' = Some (JString ''\<newline>@deprecated'') \<and>
      map_of props' ''older'' = Some (JObject older') \<and>
      map_of older' ''description'' =
        Some (JString (''The old way.'' @ ''\<newline>@deprecated '' @ ''use X instead'')))"
proof -
  note parsed = sample_schema_parsed
  note props = sample_schema_props
  have old: "map_of schema_props ''old'' = Some (JObject old_entry)"
    by code_simp
  have older: "map_of schema_props ''older'' = Some (JObject older_entry)"
    by code_simp
  note returned = sample_schema_returned
  have old_facts: "map_of old_entry ''x-deprecated'' = Some (JBool True)"
    "map_of old_entry ''description'' = None"
    by (simp_all add: old_entry_def)
  have older_facts: "map_of older_entry ''x-deprecated'' = Some (JString ''use X instead'')"
    "map_of older_entry ''description'' = Some (JString ''The old way.'')"
    by (simp_all add: older_entry_def)
  from deprecated_description_appended [OF parsed props old returned] old_facts
  obtain props1 old'
    where c1: "deprecate_content sample_platform (JObject schema_members) =
        Inr (JObject (AList.update ''properties'' (JObject props1) schema_members))"
      and o1: "map_of props1 ''old'' = Some (JObject old')"
        "map_of old' ''description'' = Some (JString ''\<newline>@deprecated'')"
    by blast
  from deprecated_description_appended [OF parsed props older returned] older_facts
  obtain props2 older'
    where c2: "deprecate_content sample_platform (JObject schema_members) =
        Inr (JObject (AList.update ''properties'' (JObject props2) schema_members))"
      and o2: "map_of props2 ''older'' = Some (JObject older')"
        "map_of older' ''description'' =
           Some (JString (''The old way.'' @ ''\<newline>@deprecated '' @ ''use X instead''))"
    by blast
  from c1 c2 have "AList.update ''properties'' (JObject props1) schema_members =
      AList.update ''properties'' (JObject props2) schema_members"
    by simp
  then have "props1 = props2"
    by (simp add: schema_members_def)
  with parsed props old older returned c1 o1 o2 show ?thesis
    by blast
qed

text \<open>An entry whose annotation is absent or falsy, and a value that is no object, stay as they are.\<close>

lemma deprecate_entry_falsy:
  "\<not> ToBoolean p (map_of own ''x-deprecated'') \<Longrightarrow>
   deprecate_entry p (JObject own) = Inr (JObject own)"
  by simp

lemma deprecate_entry_not_object:
  "deprecate_entry p v = Inr v' \<Longrightarrow> \<forall>own. v \<noteq> JObject own \<Longrightarrow> v' = v"
  by (cases v) simp_all

text \<open>
  Claim C5.  Whenever the pre-processor returns, an entry of the top-level \<open>properties\<close>
  that has no \<open>x-deprecated\<close> key is in the result as it was: its description and every
  other field are unchanged.
\<close>

theorem entry_without_annotation_unchanged:
  assumes parsed: "JSON_parse p schema = Some (JObject members)"
    and props: "map_of members ''properties'' = Some (JObject props)"
    and entry: "map_of props key = Some v"
    and no_key: "\<forall>own. v = JObject own \<longrightarrow> map_of own ''x-deprecated'' = None"
    and returned: "appendDeprecatedDescription p schema = Inr out"
  shows "\<exists>props'.
      deprecate_content p (JObject members) =
        Inr (JObject (AList.update ''properties'' (JObject props') members)) \<and>
      out = JSON_stringify p (JObject (AList.update ''properties'' (JObject props') members)) \<and>
      map_of props' key = Some v"
proof -
  from appendDeprecatedDescription_entry [OF parsed props entry returned]
  obtain props' v'
    where content': "deprecate_content p (JObject members) =
        Inr (JObject (AList.update ''properties'' (JObject props') members))"
      and out: "out = JSON_stringify p (JObject (AList.update ''properties'' (JObject props') members))"
      and entry': "map_of props' key = Some v'"
      and body: "deprecate_entry p v = Inr v'"
    by blast
  have "v' = v"
  proof (cases "\<exists>own. v = JObject own")
    case True
    then obtain own where v: "v = JObject own" ..
    with no_key have "\<not> ToBoolean p (map_of own ''x-deprecated'')" by simp
    from deprecate_entry_falsy [OF this] body v show ?thesis by simp
  next
    case False
    with body show ?thesis by (intro deprecate_entry_not_object) simp_all
  qed
  with content' out entry' show ?thesis by (intro exI conjI) simp_all
qed

text \<open>The theorem at the entry \<open>name\<close> of the example schema.\<close>

theorem entry_without_annotation_unchanged_witness:
  "JSON_parse sample_platform (sample_stringify schema_doc) = Some (JObject schema_members) \<and>
   map_of schema_members ''properties'' = Some (JObject schema_props) \<and>
   map_of schema_props ''name'' = Some (JObject name_entry) \<and>
   map_of name_entry ''x-deprecated'' = None \<and>
   appendDeprecatedDescription sample_platform (sample_stringify schema_doc) =
     Inr (sample_stringify schema_doc_deprecated) \<and>
   (\<exists>props'.
      deprecate_content sample_platform (JObject schema_members) =
        Inr (JObject (AList.update ''properties'' (JObject props') schema_members)) \<and>
      sample_stringify schema_doc_deprecated =
        JSON_stringify sample_platform
          (JObject (AList.update ''properties'' (JObject props') schema_members)) \<and>
      map_of props' ''name'' = Some (JObject name_entry))"
proof -
  note parsed = sample_schema_parsed
  note props = sample_schema_props
  have entry: "map_of schema_props ''name'' = Some (JObject name_entry)"
    by code_simp
  have absent: "map_of name_entry ''x-deprecated'' = None"
    by (simp add: name_entry_def)
  then have no_key:
    "\<forall>own. JObject name_entry = JObject own \<longrightarrow> map_of own ''x-deprecated'' = None"
    by simp
  note returned = sample_schema_returned
  from entry_without_annotation_unchanged [OF parsed props entry no_key returned]
    parsed props entry absent returned
  show ?thesis by (intro conjI) assumption+
qed

text \<open>
  Claim C9.  An entry whose \<open>x-deprecated\<close> is present but falsy (\<open>false\<close>, the empty
  string, \<open>null\<close>, or a number that is zero) is treated as one without the annotation:
  whenever the pre-processor returns, the entry is in the result as it was, and nothing
  is appended to its description.
\<close>

theorem falsy_annotation_ignored:
  assumes parsed: "JSON_parse p schema = Some (JObject members)"
    and props: "map_of members ''properties'' = Some (JObject props)"
    and entry: "map_of props key = Some (JObject own)"
    and present: "map_of own ''x-deprecated'' = Some d"
    and falsy: "d = JBool False \<or> d = JString [] \<or> d = JNull \<or>
                (\<exists>n. d = JNumber n \<and> Number_isZeroOrNaN p n)"
    and returned: "appendDeprecatedDescription p schema = Inr out"
  shows "\<exists>props'.
      deprecate_content p (JObject members) =
        Inr (JObject (AList.update ''properties'' (JObject props') members)) \<and>
      out = JSON_stringify p (JObject (AList.update ''properties'' (JObject props') members)) \<and>
      map_of props' key = Some (JObject own)"
proof -
  from appendDeprecatedDescription_entry [OF parsed props entry returned]
  obtain props' v'
    where content': "deprecate_content p (JObject members) =
        Inr (JObject (AList.update ''properties'' (JObject props') members))"
      and out: "out = JSON_stringify p (JObject (AList.update ''properties'' (JObject props') members))"
      and entry': "map_of props' key = Some v'"
      and body: "deprecate_entry p (JObject own) = Inr v'"
    by blast
  from present falsy have "\<not> ToBoolean p (map_of own ''x-deprecated'')"
    by auto
  from deprecate_entry_falsy [OF this] body have "v' = JObject own" by simp
  with content' out entry' show ?thesis by (intro exI conjI) simp_all
qed

text \<open>The theorem at the entry \<open>zero\<close> of the example schema, whose annotation is \<open>0\<close>.\<close>

theorem falsy_annotation_ignored_witness:
  "JSON_parse sample_platform (sample_stringify schema_doc) = Some (JObject schema_members) \<and>
   map_of schema_members ''properties'' = Some (JObject schema_props) \<and>
   map_of schema_props ''zero'' = Some (JObject zero_entry) \<and>
   map_of zero_entry ''x-deprecated'' = Some (JNumber (Num 0)) \<and>
   Number_isZeroOrNaN sample_platform (Num 0) \<and>
   appendDeprecatedDescription sample_platform (sample_stringify schema_doc) =
     Inr (sample_stringify schema_doc_deprecated) \<and>
   (\<exists>props'.
      deprecate_content sample_platform (JObject schema_members) =
        Inr (JObject (AList.update ''properties'' (JObject props') schema_members)) \<and>
      sample_stringify schema_doc_deprecated =
        JSON_stringify sample_platform
          (JObject (AList.update ''properties'' (JObject props') schema_members)) \<and>
      map_of props' ''zero'' = Some (JObject zero_entry))"
proof -
  note parsed = sample_schema_parsed
  note props = sample_schema_props
  have entry: "map_of schema_props ''zero'' = Some (JObject zero_entry)"
    by code_simp
  have present: "map_of zero_entry ''x-deprecated'' = Some (JNumber (Num 0))"
    by (simp add: zero_entry_def)
  have zero: "Number_isZeroOrNaN sample_platform (Num 0)"
    by (simp add: sample_platform_def)
  then have falsy: "JNumber (Num 0) = JBool False \<or> JNumber (Num 0) = JString [] \<or>
      JNumber (Num 0) = JNull \<or>
      (\<exists>n. JNumber (Num 0) = JNumber n \<and> Number_isZeroOrNaN sample_platform n)"
    by simp
  note returned = sample_schema_returned
  from falsy_annotation_ignored [OF parsed props entry present falsy returned]
    parsed props entry present zero returned
  show ?thesis by (intro conjI) assumption+
qed

text \<open>A document without a top-level \<open>properties\<close> member goes through the loop untouched.\<close>

lemma deprecate_content_no_properties:
  assumes "content \<noteq> JNull"
    and "\<forall>members. content = JObject members \<longrightarrow> map_of members ''properties'' = None"
  shows "deprecate_content p content = Inr content"
  using assms by (cases content) simp_all

text \<open>
  Claim C10, as amended.  For a parsed document other than \<open>null\<close> that has no top-level
  \<open>properties\<close> member, the pre-processor does not fail and returns the serialisation of
  the parsed value, unchanged; the returned text parses to the value the input parsed to
  whenever the runtime's \<open>JSON.parse\<close> gives that value back from its \<open>JSON.stringify\<close>.
\<close>

theorem no_properties_identity:
  assumes parsed: "JSON_parse p schema = Some content"
    and not_null: "content \<noteq> JNull"
    and no_props: "\<forall>members. content = JObject members \<longrightarrow> map_of members ''properties'' = None"
  shows "deprecate_content p content = Inr content \<and>
         appendDeprecatedDescription p schema = Inr (JSON_stringify p content) \<and>
         (JSON_parse p (JSON_stringify p content) = Some content \<longrightarrow>
            JSON_parse p (JSON_stringify p content) = JSON_parse p schema)"
proof -
  have same: "deprecate_content p content = Inr content"
    using not_null no_props by (rule deprecate_content_no_properties)
  with parsed show ?thesis
    by (simp add: appendDeprecatedDescription_def)
qed

text \<open>The theorem at the example document \<open>plain_doc\<close>.\<close>

theorem no_properties_identity_witness:
  "JSON_parse sample_platform (sample_stringify plain_doc) = Some plain_doc \<and>
   plain_doc \<noteq> JNull \<and>
   map_of plain_members ''properties'' = None \<and>
   JSON_parse sample_platform (JSON_stringify sample_platform plain_doc) = Some plain_doc \<and>
   appendDeprecatedDescription sample_platform (sample_stringify plain_doc) =
     Inr (JSON_stringify sample_platform plain_doc) \<and>
   JSON_parse sample_platform (JSON_stringify sample_platform plain_doc) =
     JSON_parse sample_platform (sample_stringify plain_doc)"
proof -
  have parsed: "JSON_parse sample_platform (sample_stringify plain_doc) = Some plain_doc"
    by code_simp
  have not_null: "plain_doc \<noteq> JNull"
    by (simp add: plain_doc_def)
  have absent: "map_of plain_members ''properties'' = None"
    by (simp add: plain_members_def)
  then have no_props:
    "\<forall>members. plain_doc = JObject members \<longrightarrow> map_of members ''properties'' = None"
    by (simp add: plain_doc_def)
  have round: "JSON_parse sample_platform (JSON_stringify sample_platform plain_doc) = Some plain_doc"
    by code_simp
  from no_properties_identity [OF parsed not_null no_props] round
    parsed not_null absent
  show ?thesis by simp
qed

text \<open>
  The claim as stated fails at the schema \<open>{"maximum":1e999}\<close>: the literal parses to
  \<open>Infinity\<close>, which is serialised as \<open>null\<close>, so the returned text parses to a
  different value.
\<close>

theorem no_properties_round_trip_counterexample:
  "JSON_parse sample_platform huge_text = Some (JObject [(''maximum'', JNumber Infinity)]) \<and>
   map_of [(''maximum'', JNumber Infinity :: number json)] ''properties'' = None \<and>
   appendDeprecatedDescription sample_platform huge_text =
     Inr (''{'' @ quote ''maximum'' @ '':null}'') \<and>
   JSON_parse sample_platform (''{'' @ quote ''maximum'' @ '':null}'') =
     Some (JObject [(''maximum'', JNull)]) \<and>
   JSON_parse sample_platform (''{'' @ quote ''maximum'' @ '':null}'') \<noteq>
     JSON_parse sample_platform huge_text"
  by code_simp

section \<open>The reference resolver: properties\<close>

text \<open>
  The network branch.  When the request itself is rejected, \<open>content\<close> stays \<open>null\<close> and
  the file steps follow; when a response arrives, \<open>content\<close> is the promise of its body,
  whatever the body is, no later step replaces it, and \<open>JSON.parse\<close> is given a promise.
\<close>

lemma fetch_by_scheme_response:
  assumes "protocol (URL_parse p address) \<noteq> Some ''ng-cli:''"
    and "hostname (URL_parse p address) = Some host" and "host \<noteq> []"
    and "global_fetch p address = Some r"
  shows "fetch_by_scheme p address = Inr (TextPromise (body r))"
  using assms by (simp add: fetch_by_scheme_def Let_def)

lemma fetch_by_scheme_rejected:
  assumes "protocol (URL_parse p address) \<noteq> Some ''ng-cli:''"
    and "global_fetch p address = None"
  shows "fetch_by_scheme p address = Inr Null"
  using assms by (simp add: fetch_by_scheme_def Let_def)

lemma fetch_response_not_awaited:
  assumes "protocol (URL_parse p address) \<noteq> Some ''ng-cli:''"
    and "hostname (URL_parse p address) = Some host" and "host \<noteq> []"
    and "global_fetch p address = Some r"
    and "JSON_parse p ''[object Promise]'' = None"
  shows "fetch p inPath address = Inl SyntaxError"
  using assms
  by (simp add: fetch_def fetch_by_scheme_response fetch_relative_def fetch_literal_def
      appendDeprecatedDescription_def)

lemma fetch_rejected_request_falls_through:
  assumes "protocol (URL_parse p address) \<noteq> Some ''ng-cli:''"
    and "global_fetch p address = None"
  shows "fetch p inPath address =
     (case fetch_relative p inPath address Null of
        Inl e \<Rightarrow> Inl e
      | Inr c2 \<Rightarrow>
          (case fetch_literal p address c2 of
             Inl e \<Rightarrow> Inl e
           | Inr c3 \<Rightarrow>
               if c3 = Null then Inr None
               else (case appendDeprecatedDescription p (argument_text c3) of
                       Inl e \<Rightarrow> Inl e
                     | Inr schema \<Rightarrow>
                         (case parseJSON p schema ''JSON Schema'' address of
                            Inl e \<Rightarrow> Inl e
                          | Inr v \<Rightarrow> Inr (Some v)))))"
  using assms by (simp add: fetch_def fetch_by_scheme_rejected)

lemma fetch_rejected_request_absent:
  assumes "protocol (URL_parse p address) \<noteq> Some ''ng-cli:''"
    and "global_fetch p address = None"
    and "path_isAbsolute p address \<or>
         \<not> fs_existsSync p (path_join p [path_dirname p inPath, address])"
    and "\<not> fs_existsSync p address"
  shows "fetch p inPath address = Inr None"
  using assms
  by (auto simp: fetch_def fetch_by_scheme_rejected fetch_relative_def fetch_literal_def Let_def)

text \<open>A request that is rejected, on the example platform: the resolver returns \<open>undefined\<close>.\<close>

lemma fetch_rejected_request_example:
  "global_fetch sample_platform ''http://unreachable.example/schema.json'' = None \<and>
   fetch sample_platform ''/work/schema.json'' ''http://unreachable.example/schema.json'' =
     Inr None"
  by code_simp

text \<open>
  Claim C2 says that a network address whose request succeeds with a JSON body resolves
  to the parsed, pre-processed body.  At the address \<open>http://example.com/schema.json\<close> of
  the example platform the body is the text of \<open>plain_doc\<close>, which the pre-processor and
  \<open>parseJSON\<close> accept, and \<open>fetch\<close> throws a \<open>SyntaxError\<close>: the body is never awaited.
\<close>

theorem fetch_json_response_throws:
  "protocol (URL_parse sample_platform ''http://example.com/schema.json'') = Some ''http:'' \<and>
   hostname (URL_parse sample_platform ''http://example.com/schema.json'') =
     Some ''example.com'' \<and>
   global_fetch sample_platform ''http://example.com/schema.json'' =
     Some \<lparr>body = Inr (sample_stringify plain_doc)\<rparr> \<and>
   appendDeprecatedDescription sample_platform (sample_stringify plain_doc) =
     Inr (sample_stringify plain_doc) \<and>
   parseJSON sample_platform (sample_stringify plain_doc) ''JSON Schema''
     ''http://example.com/schema.json'' = Inr plain_doc \<and>
   fetch sample_platform ''/work/schema.json'' ''http://example.com/schema.json'' =
     Inl SyntaxError"
proof -
  have scheme:
    "protocol (URL_parse sample_platform ''http://example.com/schema.json'') = Some ''http:''"
    by code_simp
  have host: "hostname (URL_parse sample_platform ''http://example.com/schema.json'') =
      Some ''example.com''"
    by code_simp
  have arrived: "global_fetch sample_platform ''http://example.com/schema.json'' =
      Some \<lparr>body = Inr (sample_stringify plain_doc)\<rparr>"
    by code_simp
  have schema: "appendDeprecatedDescription sample_platform (sample_stringify plain_doc) =
      Inr (sample_stringify plain_doc)"
    by code_simp
  have expected: "parseJSON sample_platform (sample_stringify plain_doc) ''JSON Schema''
      ''http://example.com/schema.json'' = Inr plain_doc"
    by code_simp
  have no_json: "JSON_parse sample_platform ''[object Promise]'' = None"
    by code_simp
  from scheme have other:
    "protocol (URL_parse sample_platform ''http://example.com/schema.json'') \<noteq> Some ''ng-cli:''"
    by simp
  have "fetch sample_platform ''/work/schema.json'' ''http://example.com/schema.json'' =
      Inl SyntaxError"
    using other host _ arrived no_json by (rule fetch_response_not_awaited) simp
  with scheme host arrived schema expected show ?thesis
    by (intro conjI)
qed

text \<open>
  Claim C3 says that a failure of the network step, a body that cannot be read as text
  included, counts as no content and that the resolver then returns \<open>undefined\<close> when no
  file step finds the address.  At \<open>http://example.com/broken.json\<close> the response's body
  fails, no file exists under the address, and \<open>fetch\<close> throws a \<open>SyntaxError\<close>.  (A
  rejected request does fall through: \<open>fetch_rejected_request_absent\<close>.)
\<close>

theorem fetch_failed_body_throws:
  "protocol (URL_parse sample_platform ''http://example.com/broken.json'') = Some ''http:'' \<and>
   hostname (URL_parse sample_platform ''http://example.com/broken.json'') =
     Some ''example.com'' \<and>
   global_fetch sample_platform ''http://example.com/broken.json'' =
     Some \<lparr>body = Inl (SystemError ''ECONNRESET'')\<rparr> \<and>
   fs_existsSync sample_platform
     (path_join sample_platform
        [path_dirname sample_platform ''/work/schema.json'',
         ''http://example.com/broken.json'']) = False \<and>
   fs_existsSync sample_platform ''http://example.com/broken.json'' = False \<and>
   fetch sample_platform ''/work/schema.json'' ''http://example.com/broken.json'' =
     Inl SyntaxError"
proof -
  have scheme:
    "protocol (URL_parse sample_platform ''http://example.com/broken.json'') = Some ''http:''"
    by code_simp
  have host: "hostname (URL_parse sample_platform ''http://example.com/broken.json'') =
      Some ''example.com''"
    by code_simp
  have arrived: "global_fetch sample_platform ''http://example.com/broken.json'' =
      Some \<lparr>body = Inl (SystemError ''ECONNRESET'')\<rparr>"
    by code_simp
  have relative: "fs_existsSync sample_platform
     (path_join sample_platform
        [path_dirname sample_platform ''/work/schema.json'',
         ''http://example.com/broken.json'']) = False"
    by code_simp
  have literal: "fs_existsSync sample_platform ''http://example.com/broken.json'' = False"
    by code_simp
  have no_json: "JSON_parse sample_platform ''[object Promise]'' = None"
    by code_simp
  from scheme have other:
    "protocol (URL_parse sample_platform ''http://example.com/broken.json'') \<noteq> Some ''ng-cli:''"
    by simp
  have "fetch sample_platform ''/work/schema.json'' ''http://example.com/broken.json'' =
      Inl SyntaxError"
    using other host _ arrived no_json by (rule fetch_response_not_awaited) simp
  with scheme host arrived relative literal show ?thesis
    by (intro conjI)
qed

text \<open>
  Claim C4.  For an address of the \<open>ng-cli:\<close> scheme the resolver reads the file at the
  join of the module's directory, \<open>../packages/angular/cli\<close>, the host and the path of
  the address; when that read throws, \<open>fetch\<close> throws the same error, whatever the later
  steps would have found.  The generator is a library outside the file: for an input
  whose schema needs the address, so that the generator fails on every store that throws
  at it, generation fails, and the program prints the error and exits with status 127.
\<close>

theorem custom_scheme_missing_file_is_fatal:
  assumes scheme: "protocol (URL_parse p address) = Some ''ng-cli:''"
    and host: "hostname (URL_parse p address) = Some host"
    and urlpath: "path (URL_parse p address) = Some urlpath"
    and missing: "fs_readFileSync p
        (path_join p [module_dirname p, ''../packages/angular/cli'', host, urlpath]) = Inl err"
  shows "fetch p inPath address = Inl err \<and>
    (\<forall>argv content schema.
       (length argv = 2 \<or> length argv = 3) \<and>
       fs_readFileSync p (argv ! 0) = Inr content \<and>
       appendDeprecatedDescription p content = Inr schema \<and>
       (\<forall>store. (\<exists>e. store address = Inl e) \<longrightarrow> (\<exists>e. quicktype p store schema = Inl e)) \<longrightarrow>
       (\<exists>e. quicktype p (fetch p (argv ! 0)) schema = Inl e \<and>
            generate p (argv ! 0) = Inl e \<and>
            program p argv =
              ([ConsoleError ''An error happened:'', ConsoleErrorValue e], 127)))"
proof (intro conjI allI impI)
  show "fetch p inPath address = Inl err"
    using assms by (simp add: fetch_def fetch_by_scheme_def Let_def)
next
  fix argv content schema
  assume run: "(length argv = 2 \<or> length argv = 3) \<and>
       fs_readFileSync p (argv ! 0) = Inr content \<and>
       appendDeprecatedDescription p content = Inr schema \<and>
       (\<forall>store. (\<exists>e. store address = Inl e) \<longrightarrow> (\<exists>e. quicktype p store schema = Inl e))"
  have thrown: "fetch p (argv ! 0) address = Inl err"
    using assms by (simp add: fetch_def fetch_by_scheme_def Let_def)
  from run have needed:
    "(\<exists>e. fetch p (argv ! 0) address = Inl e) \<longrightarrow>
       (\<exists>e. quicktype p (fetch p (argv ! 0)) schema = Inl e)"
    by blast
  with thrown obtain e where failed: "quicktype p (fetch p (argv ! 0)) schema = Inl e"
    by blast
  with run have generated: "generate p (argv ! 0) = Inl e"
    by (simp add: generate_def)
  then have "main p (argv ! 0) (argv ! 1) = ([], Rejected e)"
    by (simp add: main_def)
  with run have "program p argv =
      ([ConsoleError ''An error happened:'', ConsoleErrorValue e], 127)"
    by (auto simp: program_def)
  with failed generated
  show "\<exists>e. quicktype p (fetch p (argv ! 0)) schema = Inl e \<and>
            generate p (argv ! 0) = Inl e \<and>
            program p argv =
              ([ConsoleError ''An error happened:'', ConsoleErrorValue e], 127)"
    by blast
qed

text \<open>
  The theorem at the address \<open>ng-cli://commands/missing.json\<close>, referenced by the input
  file \<open>/work/custom.json\<close> of the example platform, whose generator fails on every
  store that throws at that address.
\<close>

theorem custom_scheme_missing_file_is_fatal_witness:
  "protocol (URL_parse sample_platform ''ng-cli://commands/missing.json'') = Some ''ng-cli:'' \<and>
   hostname (URL_parse sample_platform ''ng-cli://commands/missing.json'') = Some ''commands'' \<and>
   path (URL_parse sample_platform ''ng-cli://commands/missing.json'') = Some ''/missing.json'' \<and>
   fs_readFileSync sample_platform
     (path_join sample_platform
        [module_dirname sample_platform, ''../packages/angular/cli'', ''commands'',
         ''/missing.json'']) = Inl (SystemError ''ENOENT'') \<and>
   fetch sample_platform ''/work/custom.json'' ''ng-cli://commands/missing.json'' =
     Inl (SystemError ''ENOENT'') \<and>
   length [''/work/custom.json'', ''out.ts''] = 2 \<and>
   fs_readFileSync sample_platform ''/work/custom.json'' = Inr (sample_stringify custom_ref_doc) \<and>
   appendDeprecatedDescription sample_platform (sample_stringify custom_ref_doc) =
     Inr (sample_stringify custom_ref_doc) \<and>
   \<not> (\<exists>store. (\<exists>e. store ''ng-cli://commands/missing.json'' = Inl e) \<and>
          (\<forall>e. quicktype sample_platform store (sample_stringify custom_ref_doc) \<noteq> Inl e)) \<and>
   (\<exists>e. quicktype sample_platform (fetch sample_platform ''/work/custom.json'')
          (sample_stringify custom_ref_doc) = Inl e \<and>
        generate sample_platform ''/work/custom.json'' = Inl e \<and>
        program sample_platform [''/work/custom.json'', ''out.ts''] =
          ([ConsoleError ''An error happened:'', ConsoleErrorValue e], 127)) \<and>
   snd (program sample_platform [''/work/custom.json'', ''out.ts'']) = 127"
proof -
  have scheme:
    "protocol (URL_parse sample_platform ''ng-cli://commands/missing.json'') = Some ''ng-cli:''"
    by code_simp
  have host:
    "hostname (URL_parse sample_platform ''ng-cli://commands/missing.json'') = Some ''commands''"
    by code_simp
  have urlpath:
    "path (URL_parse sample_platform ''ng-cli://commands/missing.json'') = Some ''/missing.json''"
    by code_simp
  have missing: "fs_readFileSync sample_platform
     (path_join sample_platform
        [module_dirname sample_platform, ''../packages/angular/cli'', ''commands'',
         ''/missing.json'']) = Inl (SystemError ''ENOENT'')"
    by code_simp
  have two: "length [''/work/custom.json'', ''out.ts''] = 2"
    by simp
  have input: "fs_readFileSync sample_platform ''/work/custom.json'' =
      Inr (sample_stringify custom_ref_doc)"
    by code_simp
  have schema: "appendDeprecatedDescription sample_platform (sample_stringify custom_ref_doc) =
     Inr (sample_stringify custom_ref_doc)"
    by code_simp
  have parsed: "sample_parse (sample_stringify custom_ref_doc) = Some custom_ref_doc"
    by code_simp
  have asked: "sample_quicktype store (sample_stringify custom_ref_doc) =
      (case store ''ng-cli://commands/missing.json'' of
         Inl e \<Rightarrow> Inl e
       | Inr None \<Rightarrow> Inl (GeneratorError ''SchemaFetchError'')
       | Inr (Some v) \<Rightarrow> Inr sample_lines)" for store
    unfolding sample_quicktype_def parsed by (simp add: custom_ref_doc_def)
  have generator: "quicktype sample_platform = sample_quicktype"
    by (simp add: sample_platform_def)
  have needed: "\<exists>e. quicktype sample_platform store (sample_stringify custom_ref_doc) = Inl e"
    if "\<exists>e. store ''ng-cli://commands/missing.json'' = Inl e" for store
  proof -
    from that obtain e where "store ''ng-cli://commands/missing.json'' = Inl e" ..
    then have "sample_quicktype store (sample_stringify custom_ref_doc) = Inl e"
      by (simp add: asked)
    then show ?thesis
      unfolding generator ..
  qed
  then have contract:
    "\<forall>store. (\<exists>e. store ''ng-cli://commands/missing.json'' = Inl e) \<longrightarrow>
       (\<exists>e. quicktype sample_platform store (sample_stringify custom_ref_doc) = Inl e)"
    by blast
  then have contract': "\<not> (\<exists>store. (\<exists>e. store ''ng-cli://commands/missing.json'' = Inl e) \<and>
          (\<forall>e. quicktype sample_platform store (sample_stringify custom_ref_doc) \<noteq> Inl e))"
    by blast
  note fatal = custom_scheme_missing_file_is_fatal [OF scheme host urlpath missing]
  from fatal [of "''/work/custom.json''"]
  have thrown: "fetch sample_platform ''/work/custom.json'' ''ng-cli://commands/missing.json'' =
     Inl (SystemError ''ENOENT'')"
    by (rule conjunct1)
  from fatal [of "''/work/custom.json''"]
  have "\<forall>argv content schema.
       (length argv = 2 \<or> length argv = 3) \<and>
       fs_readFileSync sample_platform (argv ! 0) = Inr content \<and>
       appendDeprecatedDescription sample_platform content = Inr schema \<and>
       (\<forall>store. (\<exists>e. store ''ng-cli://commands/missing.json'' = Inl e) \<longrightarrow>
          (\<exists>e. quicktype sample_platform store schema = Inl e)) \<longrightarrow>
       (\<exists>e. quicktype sample_platform (fetch sample_platform (argv ! 0)) schema = Inl e \<and>
            generate sample_platform (argv ! 0) = Inl e \<and>
            program sample_platform argv =
              ([ConsoleError ''An error happened:'', ConsoleErrorValue e], 127))"
    by (rule conjunct2)
  from this [rule_format, of "[''/work/custom.json'', ''out.ts'']"
      "sample_stringify custom_ref_doc" "sample_stringify custom_ref_doc"]
    two input schema contract
  have exit: "\<exists>e. quicktype sample_platform (fetch sample_platform ''/work/custom.json'')
          (sample_stringify custom_ref_doc) = Inl e \<and>
        generate sample_platform ''/work/custom.json'' = Inl e \<and>
        program sample_platform [''/work/custom.json'', ''out.ts''] =
          ([ConsoleError ''An error happened:'', ConsoleErrorValue e], 127)"
    by simp
  then have status: "snd (program sample_platform [''/work/custom.json'', ''out.ts'']) = 127"
    by auto
  from scheme host urlpath missing thrown two input schema contract' exit status show ?thesis
    by (intro conjI)
qed

section \<open>Generation and the program: properties\<close>

text \<open>
  \<open>main\<close> writes only the text \<open>generate\<close> returned, and the entry adds nothing but
  messages on the error stream.
\<close>

lemma main_failed_generation:
  "generate p inPath = Inl e \<Longrightarrow> main p inPath outPath = ([], Rejected e)"
  by (simp add: main_def)

lemma main_stdout:
  "generate p inPath = Inr content \<Longrightarrow> main p inPath ''-'' = ([ConsoleLog content], Exit 0)"
  by (simp add: main_def)

lemma main_write:
  "WriteFile f c \<in> set (fst (main p inPath outPath)) \<Longrightarrow> generate p inPath = Inr c"
  by (auto simp: main_def Let_def split: sum.splits if_splits option.splits)

lemma program_effects:
  "set (fst (program p argv)) \<subseteq>
     set (fst (main p (argv ! 0) (argv ! 1))) \<union>
     {e. \<exists>s. e = ConsoleError s} \<union> {e. \<exists>err. e = ConsoleErrorValue err}"
  by (cases "main p (argv ! 0) (argv ! 1)"; cases "snd (main p (argv ! 0) (argv ! 1))")
    (auto simp: program_def)

text \<open>
  Claim C6.  With fewer than two or more than three arguments the program prints one
  error message and exits with status 1.  With two or three arguments and the output path
  \<open>-\<close>, once generation has returned its text, the program prints that text on the
  standard output and exits with status 0; it has no other effect, so it writes no file.
\<close>

theorem argument_count_and_stdout:
  "(length argv < 2 \<or> length argv > 3 \<longrightarrow>
      program p argv = ([ConsoleError ''Must include 2 or 3 arguments.''], 1)) \<and>
   ((length argv = 2 \<or> length argv = 3) \<and> argv ! 1 = ''-'' \<and>
    generate p (argv ! 0) = Inr content \<longrightarrow>
      program p argv = ([ConsoleLog content], 0))"
proof (intro conjI impI)
  assume "length argv < 2 \<or> length argv > 3"
  then show "program p argv = ([ConsoleError ''Must include 2 or 3 arguments.''], 1)"
    by (simp add: program_def)
next
  assume run: "(length argv = 2 \<or> length argv = 3) \<and> argv ! 1 = ''-'' \<and>
    generate p (argv ! 0) = Inr content"
  then have "main p (argv ! 0) (argv ! 1) = ([ConsoleLog content], Exit 0)"
    by (simp add: main_stdout)
  with run show "program p argv = ([ConsoleLog content], 0)"
    by (auto simp: program_def)
qed

text \<open>The theorem at one argument, at four arguments, and at the output path \<open>-\<close>.\<close>

theorem argument_count_and_stdout_witness:
  "length [''/work/schema.json''] < 2 \<and>
   program sample_platform [''/work/schema.json''] =
     ([ConsoleError ''Must include 2 or 3 arguments.''], 1) \<and>
   length [''/work/schema.json'', ''out.ts'', ''extra'', ''more''] > 3 \<and>
   program sample_platform [''/work/schema.json'', ''out.ts'', ''extra'', ''more''] =
     ([ConsoleError ''Must include 2 or 3 arguments.''], 1) \<and>
   length [''/work/schema.json'', ''-''] = 2 \<and>
   [''/work/schema.json'', ''-''] ! 1 = ''-'' \<and>
   generate sample_platform ([''/work/schema.json'', ''-''] ! 0) =
     Inr (header @ join ''\<newline>'' sample_lines @ footer) \<and>
   program sample_platform [''/work/schema.json'', ''-''] =
     ([ConsoleLog (header @ join ''\<newline>'' sample_lines @ footer)], 0)"
proof -
  have generated: "generate sample_platform ([''/work/schema.json'', ''-''] ! 0) =
     Inr (header @ join ''\<newline>'' sample_lines @ footer)"
    by code_simp
  have one: "length [''/work/schema.json''] < 2"
    and four: "length [''/work/schema.json'', ''out.ts'', ''extra'', ''more''] > 3"
    and two: "length [''/work/schema.json'', ''-''] = 2"
    and dash: "[''/work/schema.json'', ''-''] ! 1 = ''-''"
    by simp_all
  from argument_count_and_stdout [of "[''/work/schema.json'']" sample_platform] one
  have few: "program sample_platform [''/work/schema.json''] =
     ([ConsoleError ''Must include 2 or 3 arguments.''], 1)"
    by blast
  from argument_count_and_stdout
    [of "[''/work/schema.json'', ''out.ts'', ''extra'', ''more'']" sample_platform] four
  have many: "program sample_platform [''/work/schema.json'', ''out.ts'', ''extra'', ''more''] =
     ([ConsoleError ''Must include 2 or 3 arguments.''], 1)"
    by blast
  from argument_count_and_stdout [of "[''/work/schema.json'', ''-'']" sample_platform
      "header @ join ''\<newline>'' sample_lines @ footer"] two dash generated
  have stdout: "program sample_platform [''/work/schema.json'', ''-''] =
     ([ConsoleLog (header @ join ''\<newline>'' sample_lines @ footer)], 0)"
    by blast
  from one few four many two dash generated stdout show ?thesis
    by (intro conjI)
qed

text \<open>
  Claim C7.  When \<open>generate\<close> throws, \<open>main\<close> has no effect at all and the program writes
  no file; a file is written only after \<open>generate\<close> has returned, and what is written is
  the whole text it returned.
\<close>

theorem failed_generation_writes_nothing:
  "(generate p inPath = Inl e \<longrightarrow> main p inPath outPath = ([], Rejected e)) \<and>
   (generate p (argv ! 0) = Inl e \<longrightarrow> (\<forall>f c. WriteFile f c \<notin> set (fst (program p argv)))) \<and>
   (WriteFile f c \<in> set (fst (main p inPath outPath)) \<longrightarrow> generate p inPath = Inr c) \<and>
   (WriteFile f c \<in> set (fst (program p argv)) \<longrightarrow> generate p (argv ! 0) = Inr c)"
proof -
  have written: "generate p (argv ! 0) = Inr c'"
    if "WriteFile f' c' \<in> set (fst (program p argv))" for f' c'
  proof -
    from that program_effects [of p argv]
    have "WriteFile f' c' \<in> set (fst (main p (argv ! 0) (argv ! 1)))"
      by auto
    then show ?thesis by (rule main_write)
  qed
  then have "\<forall>f c. WriteFile f c \<notin> set (fst (program p argv))"
    if "generate p (argv ! 0) = Inl e"
    using that by fastforce
  with written show ?thesis
    by (auto simp: main_failed_generation dest: main_write)
qed

text \<open>The theorem at the input \<open>/work/custom.json\<close>, whose reference cannot be read.\<close>

theorem failed_generation_writes_nothing_witness:
  "generate sample_platform ''/work/custom.json'' = Inl (SystemError ''ENOENT'') \<and>
   main sample_platform ''/work/custom.json'' ''out.ts'' =
     ([], Rejected (SystemError ''ENOENT'')) \<and>
   (\<forall>f c. WriteFile f c \<notin> set (fst (program sample_platform [''/work/custom.json'', ''out.ts''])))"
proof -
  have failed: "generate sample_platform ''/work/custom.json'' = Inl (SystemError ''ENOENT'')"
    by code_simp
  then have failed': "generate sample_platform ([''/work/custom.json'', ''out.ts''] ! 0) =
      Inl (SystemError ''ENOENT'')"
    by simp
  note no_write = failed_generation_writes_nothing
    [where p = sample_platform and e = "SystemError ''ENOENT''"
       and inPath = "''/work/custom.json''" and outPath = "''out.ts''"
       and argv = "[''/work/custom.json'', ''out.ts'']"]
  from no_write failed
  have rejected: "main sample_platform ''/work/custom.json'' ''out.ts'' =
     ([], Rejected (SystemError ''ENOENT''))"
    by blast
  from no_write failed'
  have "\<forall>f c. WriteFile f c \<notin> set (fst (program sample_platform [''/work/custom.json'', ''out.ts'']))"
    by blast
  with failed rejected show ?thesis by (intro conjI)
qed

text \<open>
  Claim C8.  What a successful \<open>generate\<close> returns is the fixed header, then the lines the
  generator emitted for the pre-processed input, joined in order by newlines, then the
  footer, which is empty.
\<close>

theorem generate_output:
  assumes "generate p inPath = Inr out"
  shows "\<exists>content schema lines.
      fs_readFileSync p inPath = Inr content \<and>
      appendDeprecatedDescription p content = Inr schema \<and>
      quicktype p (fetch p inPath) schema = Inr lines \<and>
      out = header @ join ''\<newline>'' lines @ footer \<and>
      footer = []"
  using assms by (auto simp: generate_def footer_def split: sum.splits)

text \<open>The theorem at the input \<open>/work/schema.json\<close>, with the text written out.\<close>

theorem generate_output_witness:
  "generate sample_platform ''/work/schema.json'' =
     Inr (''\<newline>// THIS FILE IS AUTOMATICALLY GENERATED. TO UPDATE THIS FILE YOU NEED TO CHANGE THE\<newline>// CORRESPONDING JSON SCHEMA FILE, THEN RUN devkit-admin build (or bazel build ...).\<newline>\<newline>export interface Schema {\<newline>    name?: string;\<newline>}'') \<and>
   (\<exists>content schema lines.
      fs_readFileSync sample_platform ''/work/schema.json'' = Inr content \<and>
      appendDeprecatedDescription sample_platform content = Inr schema \<and>
      quicktype sample_platform (fetch sample_platform ''/work/schema.json'') schema = Inr lines \<and>
      ''\<newline>// THIS FILE IS AUTOMATICALLY GENERATED. TO UPDATE THIS FILE YOU NEED TO CHANGE THE\<newline>// CORRESPONDING JSON SCHEMA FILE, THEN RUN devkit-admin build (or bazel build ...).\<newline>\<newline>export interface Schema {\<newline>    name?: string;\<newline>}'' =
        header @ join ''\<newline>'' lines @ footer \<and>
      footer = [])"
proof -
  have generated: "generate sample_platform ''/work/schema.json'' =
     Inr (''\<newline>// THIS FILE IS AUTOMATICALLY GENERATED. TO UPDATE THIS FILE YOU NEED TO CHANGE THE\<newline>// CORRESPONDING JSON SCHEMA FILE, THEN RUN devkit-admin build (or bazel build ...).\<newline>\<newline>export interface Schema {\<newline>    name?: string;\<newline>}'')"
    by code_simp
  from generate_output [OF generated] generated show ?thesis
    by (intro conjI)
qed

end
